theory Spec2Isabelle
  imports Complex_Main "HOL-Library.Sublist"
begin

section \<open>Python values\<close>

text \<open>
  The responses handed to \<open>APIBingo.check_response\<close> are \<open>Dict[str, Any]\<close>: decoded JSON,
  that is \<open>None\<close>, booleans, integers, floats, strings, lists and dictionaries with string
  keys. The pattern table \<open>error_patterns\<close> is a dictionary of the same kind of values, and
  the code asks of each of them whether it is a type object, so type objects are values too.

  A finite float is identified with the rational number it denotes: Python compares an
  \<open>int\<close> with a \<open>float\<close> by their exact values, and \<open>-0.0 == 0.0\<close>. A dictionary is the
  list of its items in insertion order; where a key is repeated the first item is the
  binding that a lookup finds.
\<close>

datatype pyfloat = Fin rat | PosInf | NegInf | NaN

datatype pytype = TNoneType | TBool | TInt | TFloat | TStr | TList | TDict | TType

datatype pyval =
    PNone
  | PBool bool
  | PInt int
  | PFloat pyfloat
  | PStr string
  | PList "pyval list"
  | PDict "(string \<times> pyval) list"
  | PType pytype

type_synonym pydict = "(string \<times> pyval) list"

datatype error = KeyError string | TypeError

text \<open>\<open>type(v)\<close> and \<open>isinstance(v, t)\<close>; \<open>bool\<close> is a subclass of \<open>int\<close>.\<close>

fun type_of :: "pyval \<Rightarrow> pytype" where
  "type_of PNone = TNoneType"
| "type_of (PBool b) = TBool"
| "type_of (PInt i) = TInt"
| "type_of (PFloat f) = TFloat"
| "type_of (PStr s) = TStr"
| "type_of (PList xs) = TList"
| "type_of (PDict d) = TDict"
| "type_of (PType t) = TType"

definition has_type :: "pyval \<Rightarrow> pytype \<Rightarrow> bool" where
  "has_type v t = (type_of v = t \<or> (type_of v = TBool \<and> t = TInt))"

text \<open>\<open>isinstance(v, c)\<close> raises \<open>TypeError\<close> when \<open>c\<close> is not a type.\<close>

fun isinstance :: "pyval \<Rightarrow> pyval \<Rightarrow> error + bool" where
  "isinstance v (PType t) = Inr (has_type v t)"
| "isinstance v c = Inl TypeError"

text \<open>
  \<open>a == b\<close>. Booleans, integers and floats compare by numeric value (\<open>False == 0\<close>,
  \<open>True == 1\<close>, \<open>500 == 500.0\<close>); \<open>nan\<close> equals nothing. Values of different kinds are
  otherwise unequal. Lists compare element by element, dictionaries by their size and
  the values under each key.
\<close>

fun float_eq :: "pyfloat \<Rightarrow> pyfloat \<Rightarrow> bool" where
  "float_eq (Fin a) (Fin b) = (a = b)"
| "float_eq PosInf PosInf = True"
| "float_eq NegInf NegInf = True"
| "float_eq x y = False"

fun as_number :: "pyval \<Rightarrow> pyfloat option" where
  "as_number (PBool b) = Some (Fin (if b then 1 else 0))"
| "as_number (PInt i) = Some (Fin (of_int i))"
| "as_number (PFloat f) = Some f"
| "as_number v = None"

definition num_eq :: "pyfloat \<Rightarrow> pyval \<Rightarrow> bool" where
  "num_eq x v = (case as_number v of Some y \<Rightarrow> float_eq x y | None \<Rightarrow> False)"

fun py_eq :: "pyval \<Rightarrow> pyval \<Rightarrow> bool" where
  "py_eq PNone b = (case b of PNone \<Rightarrow> True | _ \<Rightarrow> False)"
| "py_eq (PBool x) b = num_eq (Fin (if x then 1 else 0)) b"
| "py_eq (PInt i) b = num_eq (Fin (of_int i)) b"
| "py_eq (PFloat f) b = num_eq f b"
| "py_eq (PStr s) b = (case b of PStr t \<Rightarrow> s = t | _ \<Rightarrow> False)"
| "py_eq (PType t) b = (case b of PType u \<Rightarrow> t = u | _ \<Rightarrow> False)"
| "py_eq (PList xs) b = (case b of PList ys \<Rightarrow> list_all2 py_eq xs ys | _ \<Rightarrow> False)"
| "py_eq (PDict d) b =
     (case b of
        PDict e \<Rightarrow>
          length d = length e \<and>
          list_all (\<lambda>(k, v). case map_of e k of None \<Rightarrow> False | Some w \<Rightarrow> py_eq v w) d
      | _ \<Rightarrow> False)"

text \<open>\<open>key in d\<close> and \<open>d[key]\<close> on a dictionary; the subscript raises \<open>KeyError\<close>.\<close>

definition dict_contains :: "pydict \<Rightarrow> string \<Rightarrow> bool" where
  "dict_contains d k = (k \<in> set (map fst d))"

definition dict_getitem :: "pydict \<Rightarrow> string \<Rightarrow> error + pyval" where
  "dict_getitem d k = (case map_of d k of None \<Rightarrow> Inl (KeyError k) | Some v \<Rightarrow> Inr v)"

text \<open>
  \<open>key in v\<close> for a string \<open>key\<close> and any value \<open>v\<close>: key membership in a dictionary,
  element membership in a list, substring test in a string, \<open>TypeError\<close> on everything
  that is not a container.
\<close>

fun py_contains :: "string \<Rightarrow> pyval \<Rightarrow> error + bool" where
  "py_contains k (PDict d) = Inr (dict_contains d k)"
| "py_contains k (PList xs) = Inr (list_ex (\<lambda>x. py_eq x (PStr k)) xs)"
| "py_contains k (PStr s) = Inr (sublist k s)"
| "py_contains k v = Inl TypeError"

section \<open>The class \<open>APIBingo\<close>\<close>

record api_bingo =
  error_patterns :: pydict
  found_patterns :: "string set"

text \<open>\<open>__init__\<close>: the pattern table in the order of the dictionary literal, nothing found.\<close>

definition APIBingo_init :: api_bingo where
  "APIBingo_init =
     \<lparr> error_patterns =
         [ (''error'', PStr ''message''),
           (''error_message'', PStr ''string''),
           (''err'', PStr ''msg''),
           (''message'', PStr ''error''),
           (''status'', PStr ''error''),
           (''result'', PStr ''failure''),
           (''success'', PBool False),
           (''code'', PInt 500),
           (''data'', PNone),
           (''details'', PStr []),
           (''trace'', PStr ''stack''),
           (''fault'', PDict [(''faultstring'', PStr ''string'')]) ],
       found_patterns = {} \<rparr>"

text \<open>
  One turn of the loop in \<open>check_response\<close>, on the item \<open>(pattern, expected_type)\<close> of the
  table, with the list \<open>found\<close> built so far. The three branches are the \<open>if\<close>, the first
  \<open>elif\<close> and the second \<open>elif\<close> of the source, in that order.
\<close>

definition check_pattern :: "pydict \<Rightarrow> string list \<Rightarrow> string \<times> pyval \<Rightarrow> error + string list" where
  "check_pattern response_data found item =
     (case item of (pattern, expected_type) \<Rightarrow>
        if dict_contains response_data pattern then
          (case dict_getitem response_data pattern of
             Inl e \<Rightarrow> Inl e
           | Inr actual_value \<Rightarrow>
               if has_type expected_type TType then
                 (case isinstance actual_value expected_type of
                    Inl e \<Rightarrow> Inl e
                  | Inr b \<Rightarrow> Inr (if b then found @ [pattern] else found))
               else if py_eq actual_value expected_type then Inr (found @ [pattern])
               else if has_type expected_type TDict \<and> has_type actual_value TDict then
                 (case py_contains ''faultstring'' actual_value of
                    Inl e \<Rightarrow> Inl e
                  | Inr b \<Rightarrow> Inr (if b then found @ [pattern] else found))
               else Inr found)
        else Inr found)"

fun check_loop :: "pydict \<Rightarrow> (string \<times> pyval) list \<Rightarrow> string list \<Rightarrow> error + string list" where
  "check_loop response_data [] found = Inr found"
| "check_loop response_data (item # items) found =
     (case check_pattern response_data found item of
        Inl e \<Rightarrow> Inl e
      | Inr found' \<Rightarrow> check_loop response_data items found')"

text \<open>
  \<open>check_response\<close> returns the list \<open>found\<close> and leaves the object with
  \<open>found_patterns\<close> updated by it.
\<close>

definition check_response :: "api_bingo \<Rightarrow> pydict \<Rightarrow> error + (string list \<times> api_bingo)" where
  "check_response self response_data =
     (case check_loop response_data (error_patterns self) [] of
        Inl e \<Rightarrow> Inl e
      | Inr found \<Rightarrow>
          Inr (found, self\<lparr>found_patterns := found_patterns self \<union> set found\<rparr>))"

text \<open>The two queries, each returning its value and the object as it leaves it.\<close>

definition get_score :: "api_bingo \<Rightarrow> nat \<times> api_bingo" where
  "get_score self = (card (found_patterns self), self)"

definition is_bingo :: "api_bingo \<Rightarrow> bool \<times> api_bingo" where
  "is_bingo self = (case get_score self of (score, self') \<Rightarrow> (5 \<le> score, self'))"

text \<open>
  The loop of \<open>main\<close> without its printing: the responses are checked one after the other
  on the same object.
\<close>

fun feed :: "api_bingo \<Rightarrow> pydict list \<Rightarrow> error + api_bingo" where
  "feed self [] = Inr self"
| "feed self (response # responses) =
     (case check_response self response of
        Inl e \<Rightarrow> Inl e
      | Inr (found, self') \<Rightarrow> feed self' responses)"

definition sample_responses :: "pydict list" where
  "sample_responses =
     [ [(''error'', PStr ''Invalid token''), (''code'', PInt 401)],
       [(''message'', PStr ''Not found''), (''success'', PBool False)],
       [(''err'', PStr ''Database timeout''), (''trace'', PStr ''java.lang...'')],
       [(''status'', PStr ''error''), (''details'', PStr ''Missing parameter'')],
       [(''fault'', PDict [(''faultstring'', PStr ''Rate limit exceeded'')])],
       [(''result'', PStr ''failure''), (''data'', PNone)] ]"

section \<open>What one call finds\<close>

text \<open>
  Whether the table item \<open>(pattern, expected_type)\<close> is appended to \<open>found\<close> for a given
  response: the three branches of the loop body read as one condition.
\<close>

fun hit :: "pydict \<Rightarrow> string \<times> pyval \<Rightarrow> bool" where
  "hit response_data (pattern, expected_type) =
     (case map_of response_data pattern of
        None \<Rightarrow> False
      | Some actual_value \<Rightarrow>
          (case expected_type of
             PType t \<Rightarrow> has_type actual_value t
           | _ \<Rightarrow>
               py_eq actual_value expected_type \<or>
               (has_type expected_type TDict \<and>
                (case actual_value of PDict d \<Rightarrow> dict_contains d ''faultstring'' | _ \<Rightarrow> False))))"

text \<open>The list that \<open>check_response\<close> returns, as proved in \<open>check_response_hits\<close> below.\<close>

definition hits :: "api_bingo \<Rightarrow> pydict \<Rightarrow> string list" where
  "hits self r = map fst (filter (hit r) (error_patterns self))"

section \<open>The loop never raises\<close>

lemma dict_contains_map_of: "dict_contains d k = (map_of d k \<noteq> None)"
  by (simp add: dict_contains_def map_of_eq_None_iff)

lemma has_type_TType: "has_type v TType = (\<exists>t. v = PType t)"
  by (cases v) (simp_all add: has_type_def)

lemma has_type_TDict: "has_type v TDict = (\<exists>d. v = PDict d)"
  by (cases v) (simp_all add: has_type_def)

lemma check_pattern_hit:
  "check_pattern r found item = Inr (if hit r item then found @ [fst item] else found)"
proof (cases item)
  case (Pair p e)
  show ?thesis
  proof (cases "map_of r p")
    case None
    with Pair show ?thesis
      by (simp add: check_pattern_def dict_contains_map_of)
  next
    case (Some a)
    show ?thesis
    proof (cases "\<exists>t. e = PType t")
      case True
      with Pair Some show ?thesis
        by (auto simp: check_pattern_def dict_contains_map_of dict_getitem_def has_type_TType)
    next
      case False
      then have nt: "\<not> has_type e TType" by (simp add: has_type_TType)
      show ?thesis
      proof (cases a)
        case (PDict d)
        with Pair Some nt False show ?thesis
          by (cases e) (auto simp: check_pattern_def dict_contains_map_of dict_getitem_def has_type_TDict)
      qed (use Pair Some nt False in \<open>cases e; auto simp: check_pattern_def dict_contains_map_of dict_getitem_def has_type_TDict\<close>)+
    qed
  qed
qed

lemma check_loop_hits:
  "check_loop r items found = Inr (found @ map fst (filter (hit r) items))"
  by (induction items arbitrary: found) (simp_all add: check_pattern_hit)

lemma check_response_hits:
  "check_response self r =
     Inr (hits self r, self\<lparr>found_patterns := found_patterns self \<union> set (hits self r)\<rparr>)"
  by (simp add: check_response_def check_loop_hits hits_def)



lemma init_found_update [simp]: "APIBingo_init\<lparr>found_patterns := {}\<rparr> = APIBingo_init"
  by (simp add: APIBingo_init_def)

lemma names_distinct: "distinct (map fst (error_patterns APIBingo_init))"
  by (simp add: APIBingo_init_def)

lemma mem_hits:
  assumes "distinct (map fst (error_patterns self))"
  shows "n \<in> set (hits self r) \<longleftrightarrow>
         (case map_of (error_patterns self) n of None \<Rightarrow> False | Some e \<Rightarrow> hit r (n, e))"
proof -
  have "n \<in> set (hits self r) \<longleftrightarrow> (\<exists>e. (n, e) \<in> set (error_patterns self) \<and> hit r (n, e))"
    by (force simp: hits_def)
  also have "\<dots> \<longleftrightarrow> (\<exists>e. map_of (error_patterns self) n = Some e \<and> hit r (n, e))"
    using assms by (simp add: map_of_eq_Some_iff)
  finally show ?thesis by (auto split: option.splits)
qed

lemma py_eq_PStr: "py_eq v (PStr s) \<longleftrightarrow> v = PStr s"
  by (cases v) (auto simp: num_eq_def)

lemma py_eq_PNone: "py_eq v PNone \<longleftrightarrow> v = PNone"
  by (cases v) (auto simp: num_eq_def)

lemma float_eq_Fin: "float_eq f (Fin q) \<longleftrightarrow> f = Fin q"
  by (cases f) auto

lemma py_eq_False: "py_eq v (PBool False) \<longleftrightarrow> v \<in> {PBool False, PInt 0, PFloat (Fin 0)}"
  by (cases v) (auto simp: num_eq_def float_eq_Fin)

lemma py_eq_500: "py_eq v (PInt 500) \<longleftrightarrow> v \<in> {PInt 500, PFloat (Fin 500)}"
  by (cases v) (auto simp: num_eq_def float_eq_Fin)

lemma py_eq_fault_dict:
  assumes "py_eq v (PDict [(''faultstring'', e)])"
  shows "\<exists>d. v = PDict d \<and> dict_contains d ''faultstring''"
proof (cases v)
  case (PDict d)
  from assms PDict have len: "length d = 1"
    and all: "list_all (\<lambda>(k, x). case map_of [(''faultstring'', e)] k of None \<Rightarrow> False | Some w \<Rightarrow> py_eq x w) d"
    by simp_all
  from len obtain k x where d: "d = [(k, x)]"
    by (cases d) auto
  with all have "k = ''faultstring''"
    by (auto split: if_splits)
  with d PDict show ?thesis
    by (simp add: dict_contains_def)
qed (use assms in \<open>auto simp: num_eq_def\<close>)

lemma hit_fault:
  "hit r (''fault'', PDict [(''faultstring'', e)]) \<longleftrightarrow>
     (\<exists>d. map_of r ''fault'' = Some (PDict d) \<and> dict_contains d ''faultstring'')"
proof (cases "map_of r ''fault''")
  case None
  then show ?thesis by simp
next
  case (Some a)
  show ?thesis
  proof (cases "py_eq a (PDict [(''faultstring'', e)])")
    case True
    from py_eq_fault_dict [OF True] Some True show ?thesis by auto
  next
    case False
    with Some show ?thesis
      by (cases a) (auto simp: has_type_def)
  qed
qed

lemma hits_init_update:
  "hits (APIBingo_init\<lparr>found_patterns := F\<rparr>) r = hits APIBingo_init r"
  by (simp add: hits_def)

lemma mem_hits_init:
  "n \<in> set (hits APIBingo_init r) \<longleftrightarrow>
     (case map_of (error_patterns APIBingo_init) n of None \<Rightarrow> False | Some e \<Rightarrow> hit r (n, e))"
  by (rule mem_hits [OF names_distinct])

lemma hit_literal:
  assumes "\<And>t. e \<noteq> PType t" and "\<And>d. e \<noteq> PDict d"
  shows "hit r (n, e) \<longleftrightarrow> (\<exists>v. map_of r n = Some v \<and> py_eq v e)"
  using assms by (cases e) (auto simp: has_type_def split: option.splits)

section \<open>String-valued keys\<close>

text \<open>
  C1. The specification reads the table entries for \<open>error\<close>, \<open>error_message\<close>, \<open>err\<close> and
  \<open>message\<close> as type checks: any string under one of these keys is a match. The loop
  body has such a branch (\<open>isinstance(expected_type, type)\<close>), but the table stores the
  strings \<open>"message"\<close>, \<open>"string"\<close>, \<open>"msg"\<close> and \<open>"error"\<close>, not the type \<open>str\<close>, so
  the branch is never taken and the value is compared with that string instead. On
  each of the four responses below, a string under the key, \<open>check_response\<close> finds
  nothing and leaves \<open>found_patterns\<close> empty.
\<close>

theorem C1_string_values_not_matched:
  "check_response APIBingo_init [(''error'', PStr ''Invalid token'')] = Inr ([], APIBingo_init) \<and>
   check_response APIBingo_init [(''error_message'', PStr ''Quota exceeded'')] = Inr ([], APIBingo_init) \<and>
   check_response APIBingo_init [(''err'', PStr ''Database timeout'')] = Inr ([], APIBingo_init) \<and>
   check_response APIBingo_init [(''message'', PStr ''Not found'')] = Inr ([], APIBingo_init)"
  by (simp add: check_response_hits hits_def APIBingo_init_def)

section \<open>Literal entries\<close>

text \<open>
  C2, as stated: \<open>{"success": 0}\<close> does not match \<open>success\<close>. It does: the comparison is
  Python's \<open>==\<close>, and \<open>0 == False\<close>.
\<close>

theorem C2_success_zero_counterexample:
  "check_response APIBingo_init [(''success'', PInt 0)] =
     Inr ([''success''], APIBingo_init\<lparr>found_patterns := {''success''}\<rparr>)"
  by (simp add: check_response_hits hits_def APIBingo_init_def num_eq_def)

text \<open>
  C2, amended. A literal entry is matched by exactly the values that Python's \<open>==\<close>
  equates with the literal. For \<open>success\<close> these are \<open>False\<close>, the integer \<open>0\<close> and the
  float \<open>0.0\<close>; for \<open>code\<close> the integer \<open>500\<close> and the float \<open>500.0\<close> (not the string
  \<open>"500"\<close>, not a boolean); for \<open>data\<close> only \<open>None\<close>; for \<open>status\<close>, \<open>result\<close>,
  \<open>details\<close> and \<open>trace\<close> only the string of the table.
\<close>

theorem C2_literal_python_equality:
  "\<exists>found self'.
     check_response (APIBingo_init\<lparr>found_patterns := F\<rparr>) r = Inr (found, self') \<and>
     (''success'' \<in> set found \<longleftrightarrow>
        (\<exists>v. map_of r ''success'' = Some v \<and> v \<in> {PBool False, PInt 0, PFloat (Fin 0)})) \<and>
     (''code'' \<in> set found \<longleftrightarrow>
        (\<exists>v. map_of r ''code'' = Some v \<and> v \<in> {PInt 500, PFloat (Fin 500)})) \<and>
     (''data'' \<in> set found \<longleftrightarrow> map_of r ''data'' = Some PNone) \<and>
     (''status'' \<in> set found \<longleftrightarrow> map_of r ''status'' = Some (PStr ''error'')) \<and>
     (''result'' \<in> set found \<longleftrightarrow> map_of r ''result'' = Some (PStr ''failure'')) \<and>
     (''details'' \<in> set found \<longleftrightarrow> map_of r ''details'' = Some (PStr [])) \<and>
     (''trace'' \<in> set found \<longleftrightarrow> map_of r ''trace'' = Some (PStr ''stack''))"
proof -
  have success: "''success'' \<in> set (hits APIBingo_init r) \<longleftrightarrow>
      (\<exists>v. map_of r ''success'' = Some v \<and> v \<in> {PBool False, PInt 0, PFloat (Fin 0)})"
    unfolding mem_hits_init by (simp add: APIBingo_init_def hit_literal py_eq_False del: hit.simps)
  have code: "''code'' \<in> set (hits APIBingo_init r) \<longleftrightarrow>
      (\<exists>v. map_of r ''code'' = Some v \<and> v \<in> {PInt 500, PFloat (Fin 500)})"
    unfolding mem_hits_init by (simp add: APIBingo_init_def hit_literal py_eq_500 del: hit.simps)
  have data: "''data'' \<in> set (hits APIBingo_init r) \<longleftrightarrow> map_of r ''data'' = Some PNone"
    unfolding mem_hits_init by (simp add: APIBingo_init_def hit_literal py_eq_PNone del: hit.simps)
  have status: "''status'' \<in> set (hits APIBingo_init r) \<longleftrightarrow> map_of r ''status'' = Some (PStr ''error'')"
    unfolding mem_hits_init by (simp add: APIBingo_init_def hit_literal py_eq_PStr del: hit.simps)
  have result: "''result'' \<in> set (hits APIBingo_init r) \<longleftrightarrow> map_of r ''result'' = Some (PStr ''failure'')"
    unfolding mem_hits_init by (simp add: APIBingo_init_def hit_literal py_eq_PStr del: hit.simps)
  have details: "''details'' \<in> set (hits APIBingo_init r) \<longleftrightarrow> map_of r ''details'' = Some (PStr [])"
    unfolding mem_hits_init by (simp add: APIBingo_init_def hit_literal py_eq_PStr del: hit.simps)
  have trace: "''trace'' \<in> set (hits APIBingo_init r) \<longleftrightarrow> map_of r ''trace'' = Some (PStr ''stack'')"
    unfolding mem_hits_init by (simp add: APIBingo_init_def hit_literal py_eq_PStr del: hit.simps)
  show ?thesis
    unfolding check_response_hits hits_init_update
    using success code data status result details trace by blast
qed

text \<open>
  At \<open>{"success": false}\<close> and \<open>{"success": 0.0}\<close> the pattern \<open>success\<close> is found; at
  \<open>{"code": "500"}\<close> the pattern \<open>code\<close> is not.
\<close>

theorem C2_literal_python_equality_witness:
  "(\<exists>found self'.
      check_response APIBingo_init [(''success'', PBool False)] = Inr (found, self') \<and>
      ''success'' \<in> set found) \<and>
   (\<exists>found self'.
      check_response APIBingo_init [(''success'', PFloat (Fin 0))] = Inr (found, self') \<and>
      ''success'' \<in> set found) \<and>
   (\<exists>found self'.
      check_response APIBingo_init [(''code'', PStr ''500'')] = Inr (found, self') \<and>
      ''code'' \<notin> set found)"
  using C2_literal_python_equality [of "{}" "[(''success'', PBool False)]"]
    C2_literal_python_equality [of "{}" "[(''success'', PFloat (Fin 0))]"]
    C2_literal_python_equality [of "{}" "[(''code'', PStr ''500'')]"]
  by simp blast

section \<open>Properties of the returned list and of a run\<close>

lemma set_hits_names: "set (hits self r) \<subseteq> set (map fst (error_patterns self))"
  by (auto simp: hits_def)

lemma hit_key: "hit r (p, e) \<Longrightarrow> p \<in> set (map fst r)"
  by (auto split: option.splits dest: map_of_SomeD  intro: rev_image_eqI)

lemma set_hits_keys: "set (hits self r) \<subseteq> set (map fst r)"
  using hit_key by (fastforce simp: hits_def)

lemma distinct_hits:
  "distinct (map fst (error_patterns self)) \<Longrightarrow> distinct (hits self r)"
  unfolding hits_def by (rule distinct_map_filter)

lemma subseq_hits: "subseq (hits self r) (map fst (error_patterns self))"
  unfolding hits_def by (simp add: subseq_map)

lemma feed_append:
  "feed self (rs @ rs') = (case feed self rs of Inl e \<Rightarrow> Inl e | Inr self' \<Rightarrow> feed self' rs')"
  by (induction rs arbitrary: self) (simp_all add: check_response_hits)

lemma feed_total:
  "\<exists>self'. feed self rs = Inr self' \<and>
     error_patterns self' = error_patterns self \<and>
     found_patterns self \<subseteq> found_patterns self' \<and>
     found_patterns self' \<subseteq> found_patterns self \<union> set (map fst (error_patterns self))"
proof (induction rs arbitrary: self)
  case Nil
  show ?case by simp
next
  case (Cons r rs)
  let ?s = "self\<lparr>found_patterns := found_patterns self \<union> set (hits self r)\<rparr>"
  from Cons.IH [of ?s] obtain self' where
    f: "feed ?s rs = Inr self'" and
    p: "error_patterns self' = error_patterns ?s" and
    lo: "found_patterns ?s \<subseteq> found_patterns self'" and
    hi: "found_patterns self' \<subseteq> found_patterns ?s \<union> set (map fst (error_patterns ?s))"
    by blast
  have "feed self (r # rs) = Inr self'"
    using f by (simp add: check_response_hits)
  moreover have "error_patterns self' = error_patterns self"
    using p by simp
  moreover have "found_patterns self \<subseteq> found_patterns self'"
    using lo by auto
  moreover have "found_patterns self' \<subseteq> found_patterns self \<union> set (map fst (error_patterns self))"
    using hi set_hits_names [of self r] by auto
  ultimately show ?case by blast
qed

section \<open>The demonstration run\<close>

lemma feed_init_step:
  "feed (APIBingo_init\<lparr>found_patterns := F\<rparr>) (r # rs) =
     feed (APIBingo_init\<lparr>found_patterns := F \<union> set (hits APIBingo_init r)\<rparr>) rs"
  by (simp add: check_response_hits hits_init_update)

lemma feed_init_start:
  "feed APIBingo_init rs = feed (APIBingo_init\<lparr>found_patterns := {}\<rparr>) rs"
  by simp

lemma hits_sample_responses:
  "map (hits APIBingo_init) sample_responses =
     [[], [''success''], [], [''status''], [''fault''], [''result'', ''data'']]"
  by (simp add: sample_responses_def hits_def APIBingo_init_def num_eq_def has_type_def
      dict_contains_def)

lemma feed_sample_responses:
  "feed APIBingo_init sample_responses =
     Inr (APIBingo_init\<lparr>found_patterns := {''success'', ''status'', ''fault'', ''result'', ''data''}\<rparr>)"
proof -
  have eq: "{''success''} \<union> {''status''} \<union> {''fault''} \<union> {''result'', ''data''} =
      {''success'', ''status'', ''fault'', ''result'', ''data''}"
    by auto
  have "feed (APIBingo_init\<lparr>found_patterns := {}\<rparr>) sample_responses =
      Inr (APIBingo_init\<lparr>found_patterns :=
        {''success''} \<union> {''status''} \<union> {''fault''} \<union> {''result'', ''data''}\<rparr>)"
    using hits_sample_responses
    by (simp add: sample_responses_def feed_init_step del: feed.simps(2) init_found_update)
  then show ?thesis
    unfolding eq by (simp only: feed_init_start)
qed

text \<open>
  C3, as stated: the six sample responses of \<open>main\<close> leave the score at 9. They leave it
  at 5: the names found are \<open>success\<close>, \<open>status\<close>, \<open>fault\<close>, \<open>result\<close> and \<open>data\<close>.
\<close>

theorem C3_sample_score_counterexample:
  "feed APIBingo_init sample_responses =
     Inr (APIBingo_init\<lparr>found_patterns := {''success'', ''status'', ''fault'', ''result'', ''data''}\<rparr>) \<and>
   fst (get_score (APIBingo_init\<lparr>found_patterns := {''success'', ''status'', ''fault'', ''result'', ''data''}\<rparr>)) = 5"
  using feed_sample_responses by (simp add: get_score_def)

text \<open>
  C3, amended. After the six sample responses, fed in order to a fresh object, the names
  found include \<open>status\<close>, \<open>result\<close>, \<open>success\<close>, \<open>data\<close> and \<open>fault\<close>, and exclude
  \<open>code\<close> (401 is not 500), \<open>details\<close> (\<open>"Missing parameter"\<close> is not the empty string),
  \<open>trace\<close> (\<open>"java.lang..."\<close> is not \<open>"stack"\<close>) and \<open>error_message\<close> (a key of no
  sample); the score is therefore at least 5 and at most 8, and \<open>is_bingo\<close> holds.
  Whether \<open>error\<close>, \<open>message\<close> and \<open>err\<close> are among the names is the subject of C1 and
  is left open here.
\<close>

theorem C3_sample_run:
  "\<exists>self.
     feed APIBingo_init sample_responses = Inr self \<and>
     {''status'', ''result'', ''success'', ''data'', ''fault''} \<subseteq> found_patterns self \<and>
     {''code'', ''details'', ''trace'', ''error_message''} \<inter> found_patterns self = {} \<and>
     5 \<le> fst (get_score self) \<and> fst (get_score self) \<le> 8 \<and>
     fst (is_bingo self)"
  unfolding feed_sample_responses by (simp add: get_score_def is_bingo_def)

section \<open>The threshold scenario\<close>

lemma hits_threshold_responses:
  "map (hits APIBingo_init)
     [[(''error'', PStr ''a'')], [(''err'', PStr ''b'')], [(''message'', PStr ''c'')],
      [(''error_message'', PStr ''d'')], [(''status'', PStr ''error'')]] =
     [[], [], [], [], [''status'']]"
  by (simp add: hits_def APIBingo_init_def)

lemma feed_threshold_four:
  "feed APIBingo_init
     [[(''error'', PStr ''a'')], [(''err'', PStr ''b'')], [(''message'', PStr ''c'')],
      [(''error_message'', PStr ''d'')]] = Inr APIBingo_init"
proof -
  have "feed (APIBingo_init\<lparr>found_patterns := {}\<rparr>)
     [[(''error'', PStr ''a'')], [(''err'', PStr ''b'')], [(''message'', PStr ''c'')],
      [(''error_message'', PStr ''d'')]] = Inr (APIBingo_init\<lparr>found_patterns := {}\<rparr>)"
    using hits_threshold_responses
    by (simp add: feed_init_step del: feed.simps(2) init_found_update)
  then show ?thesis by simp
qed

lemma feed_threshold_five:
  "feed APIBingo_init
     [[(''error'', PStr ''a'')], [(''err'', PStr ''b'')], [(''message'', PStr ''c'')],
      [(''error_message'', PStr ''d'')], [(''status'', PStr ''error'')]] =
     Inr (APIBingo_init\<lparr>found_patterns := {''status''}\<rparr>)"
proof -
  have "feed (APIBingo_init\<lparr>found_patterns := {}\<rparr>)
     [[(''error'', PStr ''a'')], [(''err'', PStr ''b'')], [(''message'', PStr ''c'')],
      [(''error_message'', PStr ''d'')], [(''status'', PStr ''error'')]] =
     Inr (APIBingo_init\<lparr>found_patterns := {''status''}\<rparr>)"
    using hits_threshold_responses
    by (simp add: feed_init_step del: feed.simps(2) init_found_update)
  then show ?thesis by (simp only: feed_init_start)
qed

text \<open>
  C4. The specification expects the score 4 after \<open>{"error": "a"}\<close>, \<open>{"err": "b"}\<close>,
  \<open>{"message": "c"}\<close>, \<open>{"error_message": "d"}\<close>, and 5 with \<open>is_bingo\<close> after
  \<open>{"status": "error"}\<close>. For the reason given under C1 the first four calls find
  nothing: the object is unchanged with score 0, and after the fifth call the score is
  1 and \<open>is_bingo\<close> is still false.
\<close>

theorem C4_threshold_scenario:
  "feed APIBingo_init
     [[(''error'', PStr ''a'')], [(''err'', PStr ''b'')], [(''message'', PStr ''c'')],
      [(''error_message'', PStr ''d'')]] = Inr APIBingo_init \<and>
   fst (get_score APIBingo_init) = 0 \<and>
   fst (is_bingo APIBingo_init) = False \<and>
   feed APIBingo_init
     [[(''error'', PStr ''a'')], [(''err'', PStr ''b'')], [(''message'', PStr ''c'')],
      [(''error_message'', PStr ''d'')], [(''status'', PStr ''error'')]] =
     Inr (APIBingo_init\<lparr>found_patterns := {''status''}\<rparr>) \<and>
   fst (get_score (APIBingo_init\<lparr>found_patterns := {''status''}\<rparr>)) = 1 \<and>
   fst (is_bingo (APIBingo_init\<lparr>found_patterns := {''status''}\<rparr>)) = False"
proof -
  have "found_patterns APIBingo_init = {}"
    by (simp add: APIBingo_init_def)
  then show ?thesis
    using feed_threshold_four feed_threshold_five
    by (simp add: get_score_def is_bingo_def)
qed

section \<open>Totality\<close>

text \<open>
  C5. \<open>check_response\<close> never raises: for every object and every response, whatever the
  values under its keys, it returns a list and the updated object. The subscript is
  guarded by the membership test, \<open>isinstance\<close> by the test that its second argument is a
  type, and \<open>"faultstring" in actual_value\<close> by the test that the value is a dictionary.
  On the empty response it returns the empty list and leaves the object as it is.
\<close>

theorem C5_check_response_total:
  "(\<exists>found self'. check_response self r = Inr (found, self')) \<and>
   check_response self [] = Inr ([], self)"
proof -
  have "hit [] item = False" for item
    by (cases item) simp
  then have "hits self [] = []"
    by (simp add: hits_def)
  then show ?thesis
    by (simp add: check_response_hits)
qed

text \<open>A response with values of the wrong kinds under four keys of the table.\<close>

theorem C5_check_response_total_witness:
  "\<exists>found self'.
     check_response APIBingo_init
       [(''fault'', PStr ''not a mapping''), (''code'', PList [PDict [], PFloat NaN]),
        (''success'', PNone), (''data'', PBool True)] = Inr (found, self')"
  using C5_check_response_total
    [of APIBingo_init "[(''fault'', PStr ''not a mapping''), (''code'', PList [PDict [], PFloat NaN]),
        (''success'', PNone), (''data'', PBool True)]"]
  by simp

section \<open>Nested fault objects\<close>

text \<open>
  C6. \<open>fault\<close> is found exactly when the response has the key \<open>fault\<close>, the value under it
  is a dictionary, and that dictionary has the key \<open>faultstring\<close>; the value under
  \<open>faultstring\<close> plays no part.
\<close>

theorem C6_nested_fault:
  "\<exists>found self'.
     check_response (APIBingo_init\<lparr>found_patterns := F\<rparr>) r = Inr (found, self') \<and>
     (''fault'' \<in> set found \<longleftrightarrow>
        (\<exists>d. map_of r ''fault'' = Some (PDict d) \<and> dict_contains d ''faultstring''))"
proof -
  have "''fault'' \<in> set (hits APIBingo_init r) \<longleftrightarrow>
      (\<exists>d. map_of r ''fault'' = Some (PDict d) \<and> dict_contains d ''faultstring'')"
    unfolding mem_hits_init by (simp add: APIBingo_init_def hit_fault del: hit.simps)
  then show ?thesis
    unfolding check_response_hits hits_init_update by blast
qed

text \<open>
  \<open>{"fault": {"faultstring": "x"}}\<close> matches; \<open>{"fault": {"other": "x"}}\<close> and
  \<open>{"fault": "not a mapping"}\<close> do not.
\<close>

theorem C6_nested_fault_witness:
  "(\<exists>found self'.
      check_response APIBingo_init [(''fault'', PDict [(''faultstring'', PStr ''x'')])] = Inr (found, self') \<and>
      ''fault'' \<in> set found) \<and>
   (\<exists>found self'.
      check_response APIBingo_init [(''fault'', PDict [(''other'', PStr ''x'')])] = Inr (found, self') \<and>
      ''fault'' \<notin> set found) \<and>
   (\<exists>found self'.
      check_response APIBingo_init [(''fault'', PStr ''not a mapping'')] = Inr (found, self') \<and>
      ''fault'' \<notin> set found)"
  using C6_nested_fault [of "{}" "[(''fault'', PDict [(''faultstring'', PStr ''x'')])]"]
    C6_nested_fault [of "{}" "[(''fault'', PDict [(''other'', PStr ''x'')])]"]
    C6_nested_fault [of "{}" "[(''fault'', PStr ''not a mapping'')]"]
  by (simp add: dict_contains_def)


section \<open>Accumulation\<close>

text \<open>
  C7. Checking the same response twice in succession, from any state of the object,
  returns the same list both times, and the score after the second call is the score
  after the first.
\<close>

theorem C7_idempotent_accumulation:
  "\<exists>found self1 self2.
     check_response self r = Inr (found, self1) \<and>
     check_response self1 r = Inr (found, self2) \<and>
     fst (get_score self2) = fst (get_score self1)"
proof -
  let ?s1 = "self\<lparr>found_patterns := found_patterns self \<union> set (hits self r)\<rparr>"
  have h: "hits ?s1 r = hits self r"
    by (simp add: hits_def)
  have "check_response ?s1 r = Inr (hits self r, ?s1)"
    unfolding check_response_hits h by simp
  then show ?thesis
    using check_response_hits [of self r] by blast
qed

text \<open>The same response twice on a fresh object.\<close>

theorem C7_idempotent_accumulation_witness:
  "\<exists>found self1 self2.
     check_response APIBingo_init [(''status'', PStr ''error''), (''success'', PInt 0)] = Inr (found, self1) \<and>
     check_response self1 [(''status'', PStr ''error''), (''success'', PInt 0)] = Inr (found, self2) \<and>
     fst (get_score self2) = fst (get_score self1)"
  using C7_idempotent_accumulation [of APIBingo_init "[(''status'', PStr ''error''), (''success'', PInt 0)]"] .

text \<open>
  C8. From a fresh object, after any sequence \<open>rs\<close> of calls the names found are among
  the 12 names of the table; the score (a natural number, so never negative) after
  \<open>rs\<close> is at most the score after any continuation \<open>rs @ rs'\<close>, which is at most 12.
\<close>

theorem C8_score_invariant:
  "\<exists>self self'.
     feed APIBingo_init rs = Inr self \<and>
     feed APIBingo_init (rs @ rs') = Inr self' \<and>
     found_patterns self \<subseteq> set (map fst (error_patterns APIBingo_init)) \<and>
     length (map fst (error_patterns APIBingo_init)) = 12 \<and>
     fst (get_score self) \<le> fst (get_score self') \<and>
     fst (get_score self') \<le> 12"
proof -
  let ?names = "map fst (error_patterns APIBingo_init)"
  have len: "length ?names = 12"
    by (simp add: APIBingo_init_def)
  have empty: "found_patterns APIBingo_init = {}"
    by (simp add: APIBingo_init_def)
  from feed_total [of APIBingo_init rs] empty obtain self where
    f1: "feed APIBingo_init rs = Inr self" and
    p1: "error_patterns self = error_patterns APIBingo_init" and
    s1: "found_patterns self \<subseteq> set ?names"
    by auto
  from feed_total [of self rs'] obtain self' where
    f2: "feed self rs' = Inr self'" and
    lo: "found_patterns self \<subseteq> found_patterns self'" and
    hi: "found_patterns self' \<subseteq> found_patterns self \<union> set (map fst (error_patterns self))"
    by blast
  have s2: "found_patterns self' \<subseteq> set ?names"
    using hi s1 p1 by auto
  have f12: "feed APIBingo_init (rs @ rs') = Inr self'"
    using f1 f2 by (simp add: feed_append)
  have fin: "finite (found_patterns self')"
    using s2 by (rule finite_subset) simp
  have mono: "card (found_patterns self) \<le> card (found_patterns self')"
    using lo fin by (rule card_mono [rotated])
  have "card (found_patterns self') \<le> card (set ?names)"
    using s2 by (intro card_mono) simp_all
  also have "\<dots> \<le> length ?names"
    by (rule card_length)
  finally have bound: "card (found_patterns self') \<le> 12"
    using len by simp
  show ?thesis
    using f1 f12 s1 len mono bound by (auto simp: get_score_def)
qed

text \<open>One call, then two more.\<close>

theorem C8_score_invariant_witness:
  "\<exists>self self'.
     feed APIBingo_init [[(''status'', PStr ''error'')]] = Inr self \<and>
     feed APIBingo_init ([[(''status'', PStr ''error'')]] @ [[(''data'', PNone)], []]) = Inr self' \<and>
     found_patterns self \<subseteq> set (map fst (error_patterns APIBingo_init)) \<and>
     length (map fst (error_patterns APIBingo_init)) = 12 \<and>
     fst (get_score self) \<le> fst (get_score self') \<and>
     fst (get_score self') \<le> 12"
  using C8_score_invariant [of "[[(''status'', PStr ''error'')]]" "[[(''data'', PNone)], []]"] .

text \<open>
  C9. The list returned by \<open>check_response\<close> has no duplicates, each of its names is a key
  of the response and one of the 12 names of the table, and the names stand in the
  order of the table: the list is a subsequence of the table's keys.
\<close>

theorem C9_returned_list:
  "\<exists>found self'.
     check_response (APIBingo_init\<lparr>found_patterns := F\<rparr>) r = Inr (found, self') \<and>
     distinct found \<and>
     set found \<subseteq> set (map fst r) \<and>
     set found \<subseteq> set (map fst (error_patterns APIBingo_init)) \<and>
     length (error_patterns APIBingo_init) = 12 \<and>
     subseq found (map fst (error_patterns APIBingo_init))"
proof -
  have "distinct (hits APIBingo_init r)"
    using names_distinct by (rule distinct_hits)
  moreover have "length (error_patterns APIBingo_init) = 12"
    by (simp add: APIBingo_init_def)
  ultimately show ?thesis
    unfolding check_response_hits hits_init_update
    using set_hits_keys [of APIBingo_init r] set_hits_names [of APIBingo_init r]
      subseq_hits [of APIBingo_init r]
    by blast
qed

text \<open>A response with two keys of the table, out of table order, and a foreign key.\<close>

theorem C9_returned_list_witness:
  "\<exists>found self'.
     check_response APIBingo_init [(''data'', PNone), (''other'', PInt 1), (''status'', PStr ''error'')] =
       Inr (found, self') \<and>
     distinct found \<and>
     set found \<subseteq> set (map fst [(''data'', PNone), (''other'', PInt 1), (''status'', PStr ''error'')]) \<and>
     set found \<subseteq> set (map fst (error_patterns APIBingo_init)) \<and>
     length (error_patterns APIBingo_init) = 12 \<and>
     subseq found (map fst (error_patterns APIBingo_init))"
  using C9_returned_list [of "{}" "[(''data'', PNone), (''other'', PInt 1), (''status'', PStr ''error'')]"]
  by (simp only: init_found_update)

text \<open>
  C10. \<open>check_response\<close> changes nothing but \<open>found_patterns\<close>, which becomes its union
  with the names of the returned list; the table is as before. \<open>get_score\<close> and
  \<open>is_bingo\<close> leave the object as they find it, alone or one after the other.
\<close>

theorem C10_frame:
  "\<exists>found self'.
     check_response self r = Inr (found, self') \<and>
     self' = self\<lparr>found_patterns := found_patterns self \<union> set found\<rparr> \<and>
     error_patterns self' = error_patterns self \<and>
     snd (get_score self) = self \<and>
     snd (is_bingo self) = self \<and>
     snd (get_score (snd (is_bingo (snd (get_score self))))) = self"
  by (simp add: check_response_hits get_score_def is_bingo_def)

text \<open>On a fresh object and a response with one match.\<close>

theorem C10_frame_witness:
  "\<exists>found self'.
     check_response APIBingo_init [(''result'', PStr ''failure'')] = Inr (found, self') \<and>
     self' = APIBingo_init\<lparr>found_patterns := found_patterns APIBingo_init \<union> set found\<rparr> \<and>
     error_patterns self' = error_patterns APIBingo_init \<and>
     snd (get_score APIBingo_init) = APIBingo_init \<and>
     snd (is_bingo APIBingo_init) = APIBingo_init \<and>
     snd (get_score (snd (is_bingo (snd (get_score APIBingo_init))))) = APIBingo_init"
  using C10_frame [of APIBingo_init "[(''result'', PStr ''failure'')]"] .

end
